theory Spec2Isabelle
  imports Complex_Main
begin

section \<open>JavaScript values, exceptions and HTTP exchanges\<close>

text \<open>
  A property of a parsed JSON object that is declared \<open>string\<close> or \<open>number\<close> is an
  option: \<open>None\<close> stands for a property that is missing (\<open>undefined\<close>) or \<open>null\<close>.
  JavaScript numbers read from JSON are finite and are modelled as reals. The negation
  \<open>!v\<close> holds for \<open>undefined\<close>, \<open>null\<close>, the empty string and the number zero.
\<close>

definition truthy_string :: "string option \<Rightarrow> bool" where
  "truthy_string v = (case v of None \<Rightarrow> False | Some s \<Rightarrow> s \<noteq> [])"

definition truthy_number :: "real option \<Rightarrow> bool" where
  "truthy_number v = (case v of None \<Rightarrow> False | Some x \<Rightarrow> x \<noteq> 0)"

text \<open>\<open>v < c\<close> and \<open>v > c\<close> for a number property; a missing number compares as NaN.\<close>

definition number_lt :: "real option \<Rightarrow> real \<Rightarrow> bool" where
  "number_lt v c = (case v of None \<Rightarrow> False | Some x \<Rightarrow> x < c)"

definition number_gt :: "real option \<Rightarrow> real \<Rightarrow> bool" where
  "number_gt v c = (case v of None \<Rightarrow> False | Some x \<Rightarrow> x > c)"

text \<open>\<open>v || d\<close> on strings.\<close>

definition string_or :: "string option \<Rightarrow> string \<Rightarrow> string" where
  "string_or v d = (case v of None \<Rightarrow> d | Some s \<Rightarrow> if s = [] then d else s)"

text \<open>\<open>s.includes(sub)\<close>.\<close>

fun str_includes :: "string \<Rightarrow> string \<Rightarrow> bool" where
  "str_includes [] sub = (sub = [])"
| "str_includes (c # cs) sub = (take (length sub) (c # cs) = sub \<or> str_includes cs sub)"

text \<open>
  A thrown value, as far as the handlers inspect it: \<open>error instanceof Error\<close>,
  \<open>error instanceof TypeError\<close>, \<open>error.name\<close> and \<open>error.message\<close>.
\<close>

datatype js_error =
  JsError (instanceof_Error: bool) (instanceof_TypeError: bool)
    (error_name: string) (error_message: string)

text \<open>
  The outcome of an upstream call. \<open>Rejected e\<close>: awaiting \<open>fetch\<close> throws \<open>e\<close> (no
  connection, timeout). \<open>Resolved\<close>: a response was received, with its status, the outcome
  of \<open>response.text()\<close> and the outcome of \<open>response.json()\<close>; either throws when the
  body cannot be read, the second also when the body is not JSON. A handler reads at
  most one of the two.
\<close>

datatype 'a fetch_result =
  Rejected js_error
| Resolved nat "js_error + string" "js_error + 'a"

definition response_ok :: "nat \<Rightarrow> bool" where
  "response_ok st = (200 \<le> st \<and> st \<le> 299)"

record 'b http_response =
  http_status :: nat
  http_body :: 'b

text \<open>
  \<open>NextResponse.json(data, {status})\<close> builds a \<open>Response\<close> with a body. The constructor
  throws a \<open>RangeError\<close> for a status outside 200..599 and a \<open>TypeError\<close> for a null body
  status (101, 103, 204, 205, 304). The message texts are those of the Node runtime;
  the handlers test only the class, the name and whether the message contains
  \<open>fetch\<close>. With the constant statuses 200 (the default), 400, 500, 503 and 504 the call
  cannot throw, and those calls are written as the response they build.
\<close>

definition null_body_status :: "nat \<Rightarrow> bool" where
  "null_body_status st = (st = 101 \<or> st = 103 \<or> st = 204 \<or> st = 205 \<or> st = 304)"

definition NextResponse_json :: "'b \<Rightarrow> nat \<Rightarrow> js_error + 'b http_response" where
  "NextResponse_json data st =
     (if st < 200 \<or> st > 599
      then Inl (JsError True False ''RangeError''
                  (''init['' @ [CHR 0x22] @ ''status'' @ [CHR 0x22]
                   @ ''] must be in the range of 200 to 599, inclusive.''))
      else if null_body_status st
      then Inl (JsError True True ''TypeError''
                  (''Response constructor: Invalid response status code ''
                   @ (if st = 204 then ''204'' else if st = 205 then ''205'' else ''304'')))
      else Inr \<lparr>http_status = st, http_body = data\<rparr>)"

section \<open>The prediction endpoint (\<open>api/predict/route.ts\<close>)\<close>

record PredictionRequest =
  req_park_id :: "string option"
  start_date :: "string option"
  days_ahead :: "real option"

record MLServicePrediction =
  date :: string
  predicted_visitors :: real
  lower_bound :: real
  upper_bound :: real
  confidence_interval :: string

record MLServiceResponse =
  success :: bool
  ml_park_id :: string
  ml_predictions :: "MLServicePrediction list option"
  ml_error :: "string option"

record PredictionPoint =
  ds :: string
  yhat :: real
  yhat_lower :: real
  yhat_upper :: real

record model_performance_t =
  mape :: real
  mae :: real
  rmse :: real

text \<open>The success body: \<open>response_data\<close> spread, plus the timestamp and the echoed request.\<close>

record PredictionResponse =
  predictions :: "PredictionPoint list"
  resp_park_id :: "string option"
  confidence_level :: real
  model_performance :: model_performance_t
  timestamp :: string
  request_params :: PredictionRequest

datatype predict_body =
  ErrorBody string
| PredictionBody PredictionResponse

definition transform :: "MLServicePrediction \<Rightarrow> PredictionPoint" where
  "transform pred =
     \<lparr>ds = date pred, yhat = predicted_visitors pred,
      yhat_lower = lower_bound pred, yhat_upper = upper_bound pred\<rparr>"

text \<open>The \<open>catch\<close> block of the handler.\<close>

definition predict_catch :: "js_error \<Rightarrow> predict_body http_response" where
  "predict_catch e =
     (if instanceof_TypeError e \<and> str_includes (error_message e) ''fetch''
      then \<lparr>http_status = 503,
            http_body = ErrorBody ''Unable to connect to ML service. Please check if the service is running.''\<rparr>
      else if instanceof_Error e \<and> error_name e = ''AbortError''
      then \<lparr>http_status = 504,
            http_body = ErrorBody ''ML service request timed out. Please try again.''\<rparr>
      else \<lparr>http_status = 500,
            http_body = ErrorBody ''An unexpected error occurred while generating predictions.''\<rparr>)"

text \<open>
  \<open>POST\<close>. The parameters are the clock reading used for the timestamp, the upstream
  service (what \<open>fetch\<close> of \<open>/predict\<close> with a given body yields) and the outcome of
  \<open>request.json()\<close>. The result is the response together with the list of request
  bodies sent upstream, in order.
\<close>

definition POST ::
  "string \<Rightarrow> (PredictionRequest \<Rightarrow> MLServiceResponse fetch_result) \<Rightarrow>
   js_error + PredictionRequest \<Rightarrow> predict_body http_response \<times> PredictionRequest list" where
  "POST now ml request =
     (case request of
        Inl e \<Rightarrow> (predict_catch e, [])
      | Inr body \<Rightarrow>
          if \<not> truthy_string (req_park_id body) \<or> \<not> truthy_string (start_date body)
             \<or> \<not> truthy_number (days_ahead body)
          then (\<lparr>http_status = 400,
                 http_body = ErrorBody ''Missing required fields: park_id, start_date, days_ahead''\<rparr>, [])
          else if number_lt (days_ahead body) 1 \<or> number_gt (days_ahead body) 365
          then (\<lparr>http_status = 400,
                 http_body = ErrorBody ''days_ahead must be between 1 and 365''\<rparr>, [])
          else
            (case ml body of
               Rejected e \<Rightarrow> (predict_catch e, [body])
             | Resolved st body_text parsed \<Rightarrow>
                 if \<not> response_ok st
                 then
                   (case body_text of
                      Inl e \<Rightarrow> (predict_catch e, [body])
                    | Inr errorText \<Rightarrow>
                        if st \<ge> 500
                        then (\<lparr>http_status = 503,
                               http_body = ErrorBody ''ML service is currently unavailable. Please try again later.''\<rparr>,
                              [body])
                        else
                          (case NextResponse_json (ErrorBody (''ML service error: '' @ errorText)) st of
                             Inl e \<Rightarrow> (predict_catch e, [body])
                           | Inr response \<Rightarrow> (response, [body])))
                 else
                   (case parsed of
                      Inl e \<Rightarrow> (predict_catch e, [body])
                    | Inr mlResponse \<Rightarrow>
                        if \<not> success mlResponse \<or> ml_predictions mlResponse = None
                        then (\<lparr>http_status = 400,
                               http_body = ErrorBody
                                 (string_or (ml_error mlResponse) ''Failed to generate predictions'')\<rparr>,
                              [body])
                        else
                          (\<lparr>http_status = 200,
                            http_body = PredictionBody
                              \<lparr>predictions =
                                 map transform (case ml_predictions mlResponse of
                                                  None \<Rightarrow> [] | Some preds \<Rightarrow> preds),
                               resp_park_id = req_park_id body,
                               confidence_level = 80,
                               model_performance = \<lparr>mape = 0, mae = 0, rmse = 0\<rparr>,
                               timestamp = now,
                               request_params = body\<rparr>\<rparr>, [body]))))"

section \<open>The park listing endpoint and the coordinate table\<close>

record visitor_stats_t =
  min_visitors :: real
  max_visitors :: real
  avg_visitors :: real

record metadata_t =
  avg_temperature_high :: "real option"
  avg_precipitation :: "real option"
  most_common_weather :: "string option"
  weekend_ratio :: "string option"
  holiday_ratio :: "string option"
  school_session_ratio :: "string option"
  avg_seasonal_factor :: "real option"
  most_common_visitor_category :: "string option"
  total_data_points :: "real option"
  earliest_date :: "string option"
  latest_date :: "string option"

text \<open>\<open>Park\<close>; an optional property is an option.\<close>

record Park =
  park_id :: string
  name :: string
  state :: string
  region :: string
  park_type :: string
  has_model :: bool
  data_available :: "bool option"
  last_training :: "string option"
  latitude :: "real option"
  longitude :: "real option"
  visitor_stats :: "visitor_stats_t option"
  metadata :: "metadata_t option"

record coordinates_t =
  lat :: real
  lng :: real

definition PARK_COORDINATES :: "(string \<times> coordinates_t) list" where
  "PARK_COORDINATES =
    [
     (''YELL'', \<lparr>lat = 44.428, lng = - 110.588\<rparr>),
     (''GRCA'', \<lparr>lat = 36.1069, lng = - 112.1129\<rparr>),
     (''YOSE'', \<lparr>lat = 37.8651, lng = - 119.5383\<rparr>),
     (''ZION'', \<lparr>lat = 37.2982, lng = - 113.0263\<rparr>),
     (''ACAD'', \<lparr>lat = 44.35, lng = - 68.21\<rparr>),
     (''ARCH'', \<lparr>lat = 38.68, lng = - 109.57\<rparr>),
     (''ROMO'', \<lparr>lat = 40.4, lng = - 105.58\<rparr>),
     (''GRSM'', \<lparr>lat = 35.6117, lng = - 83.4895\<rparr>),
     (''OLYM'', \<lparr>lat = 47.8021, lng = - 123.6044\<rparr>),
     (''GLAC'', \<lparr>lat = 48.7596, lng = - 113.787\<rparr>),
     (''DEVA'', \<lparr>lat = 36.5054, lng = - 117.0794\<rparr>),
     (''JOTR'', \<lparr>lat = 33.8734, lng = - 115.901\<rparr>),
     (''BAND'', \<lparr>lat = 35.7781, lng = - 106.2708\<rparr>),
     (''CACO'', \<lparr>lat = 42.0699, lng = - 70.0464\<rparr>),
     (''STLI'', \<lparr>lat = 40.6892, lng = - 74.0445\<rparr>),
     (''GLEN'', \<lparr>lat = 37.0042, lng = - 111.1892\<rparr>),
     (''LAME'', \<lparr>lat = 36.0905, lng = - 114.7366\<rparr>),
     (''CURE'', \<lparr>lat = 38.4619, lng = - 107.1817\<rparr>),
     (''CAHA'', \<lparr>lat = 35.2590, lng = - 75.5277\<rparr>),
     (''ASIS'', \<lparr>lat = 38.0593, lng = - 75.1458\<rparr>),
     (''INDE'', \<lparr>lat = 39.9496, lng = - 75.1503\<rparr>),
     (''COLO'', \<lparr>lat = 37.2707, lng = - 76.6135\<rparr>),
     (''BOST'', \<lparr>lat = 42.3601, lng = - 71.0589\<rparr>),
     (''GETT'', \<lparr>lat = 39.8309, lng = - 77.2361\<rparr>),
     (''ANTI'', \<lparr>lat = 39.4618, lng = - 77.7311\<rparr>),
     (''BRCA'', \<lparr>lat = 37.5930, lng = - 112.1871\<rparr>),
     (''CANY'', \<lparr>lat = 38.2, lng = - 109.93\<rparr>),
     (''CARE'', \<lparr>lat = 38.0877, lng = - 111.1660\<rparr>),
     (''REDW'', \<lparr>lat = 41.2132, lng = - 124.0046\<rparr>),
     (''SHEN'', \<lparr>lat = 38.2928, lng = - 78.6795\<rparr>),
     (''BADL'', \<lparr>lat = 43.8554, lng = - 101.9777\<rparr>),
     (''EVER'', \<lparr>lat = 25.2866, lng = - 80.8987\<rparr>),
     (''ABLI'', \<lparr>lat = 37.5429, lng = - 85.6739\<rparr>),
     (''ADAM'', \<lparr>lat = 42.2553, lng = - 71.0275\<rparr>),
     (''AFBG'', \<lparr>lat = 40.7150, lng = - 74.0042\<rparr>),
     (''AGFO'', \<lparr>lat = 42.4186, lng = - 103.7273\<rparr>),
     (''ALFL'', \<lparr>lat = 35.5669, lng = - 101.6719\<rparr>),
     (''AMIS'', \<lparr>lat = 29.5255, lng = - 101.0769\<rparr>),
     (''ANIA'', \<lparr>lat = 56.8987, lng = - 158.6114\<rparr>),
     (''APCO'', \<lparr>lat = 37.3760, lng = - 78.7959\<rparr>),
     (''AZRU'', \<lparr>lat = 36.8389, lng = - 107.9983\<rparr>),
     (''BEPA'', \<lparr>lat = 38.9072, lng = - 77.0369\<rparr>),
     (''BIBE'', \<lparr>lat = 29.1275, lng = - 103.2425\<rparr>),
     (''BICA'', \<lparr>lat = 45.0293, lng = - 108.1618\<rparr>),
     (''BICR'', \<lparr>lat = 33.5186, lng = - 86.8104\<rparr>),
     (''BISC'', \<lparr>lat = 25.4390, lng = - 80.4017\<rparr>),
     (''BLCA'', \<lparr>lat = 38.5753, lng = - 107.7018\<rparr>),
     (''BLRV'', \<lparr>lat = 42.1341, lng = - 71.1636\<rparr>),
     (''BOWA'', \<lparr>lat = 37.1214, lng = - 79.9081\<rparr>),
     (''BOHA'', \<lparr>lat = 42.3398, lng = - 70.9661\<rparr>),
     (''BRVB'', \<lparr>lat = 39.0409, lng = - 95.6890\<rparr>),
     (''BUIS'', \<lparr>lat = 17.7539, lng = - 64.6255\<rparr>),
     (''CABR'', \<lparr>lat = 32.6722, lng = - 117.2417\<rparr>),
     (''CANE'', \<lparr>lat = 37.7862, lng = - 84.5985\<rparr>),
     (''CANA'', \<lparr>lat = 28.8123, lng = - 80.8101\<rparr>),
     (''CARI'', \<lparr>lat = 31.0407, lng = - 93.0096\<rparr>),
     (''CACH'', \<lparr>lat = 36.1490, lng = - 109.3389\<rparr>),
     (''CALO'', \<lparr>lat = 34.6204, lng = - 76.5197\<rparr>),
     (''CAVO'', \<lparr>lat = 36.7828, lng = - 103.9705\<rparr>),
     (''CIBS'', \<lparr>lat = 40.2019, lng = - 77.1956\<rparr>),
     (''CAVE'', \<lparr>lat = 32.1478, lng = - 104.5567\<rparr>),
     (''CAGR'', \<lparr>lat = 32.4797, lng = - 111.5375\<rparr>),
     (''CASA'', \<lparr>lat = 29.8974, lng = - 81.3123\<rparr>),
     (''CACL'', \<lparr>lat = 40.7033, lng = - 74.0170\<rparr>),
     (''CAMO'', \<lparr>lat = 35.2917, lng = - 115.0881\<rparr>),
     (''CEBR'', \<lparr>lat = 37.6283, lng = - 112.8453\<rparr>),
     (''CEBE'', \<lparr>lat = 39.0052, lng = - 78.3086\<rparr>),
     (''CAME'', \<lparr>lat = 36.9212, lng = - 76.0051\<rparr>),
     (''CAKR'', \<lparr>lat = 67.4162, lng = - 163.1524\<rparr>),
     (''CHCU'', \<lparr>lat = 36.0544, lng = - 107.9914\<rparr>),
     (''CHIS'', \<lparr>lat = 34.0069, lng = - 119.7785\<rparr>)
    ]"

text \<open>The callback of \<open>parks.map\<close>: \<open>coordinates?.lat\<close> is \<open>undefined\<close> when the lookup fails.\<close>

definition add_coordinates :: "Park \<Rightarrow> Park" where
  "add_coordinates park =
     (let coordinates = map_of PARK_COORDINATES (park_id park)
      in park\<lparr>latitude := map_option lat coordinates,
              longitude := map_option lng coordinates\<rparr>)"

record parks_response =
  parks :: "Park list"
  total :: nat
  parks_timestamp :: string

datatype parks_body =
  ParksError string
| ParksBody parks_response

definition parks_catch :: "js_error \<Rightarrow> parks_body http_response" where
  "parks_catch e =
     (if instanceof_TypeError e \<and> str_includes (error_message e) ''fetch''
      then \<lparr>http_status = 503,
            http_body = ParksError ''Unable to connect to ML service. Please check if the service is running.''\<rparr>
      else if instanceof_Error e \<and> error_name e = ''AbortError''
      then \<lparr>http_status = 504,
            http_body = ParksError ''ML service request timed out. Please try again.''\<rparr>
      else \<lparr>http_status = 500,
            http_body = ParksError ''An unexpected error occurred while fetching parks.''\<rparr>)"

text \<open>
  \<open>GET\<close> of the listing route. The handler takes no input; its parameters are the clock
  reading and what \<open>fetch\<close> of \<open>/parks\<close> yields. The local \<open>parksWithCoords\<close> is computed
  as in the source and, as in the source, not used.
\<close>

definition parks_GET :: "string \<Rightarrow> Park list fetch_result \<Rightarrow> parks_body http_response" where
  "parks_GET now upstream =
     (case upstream of
        Rejected e \<Rightarrow> parks_catch e
      | Resolved st body_text parsed \<Rightarrow>
          if \<not> response_ok st
          then
            (if st \<ge> 500
             then \<lparr>http_status = 503,
                   http_body = ParksError ''ML service is currently unavailable. Please try again later.''\<rparr>
             else
               (case body_text of
                  Inl e \<Rightarrow> parks_catch e
                | Inr errorText \<Rightarrow>
                    (case NextResponse_json (ParksError (''ML service error: '' @ errorText)) st of
                       Inl e \<Rightarrow> parks_catch e
                     | Inr response \<Rightarrow> response)))
          else
            (case parsed of
               Inl e \<Rightarrow> parks_catch e
             | Inr upstream_parks \<Rightarrow>
                 (let parksWithCoordinates = map add_coordinates upstream_parks;
                      parksWithCoords =
                        filter (\<lambda>park. truthy_number (latitude park) \<and> truthy_number (longitude park))
                          parksWithCoordinates
                  in \<lparr>http_status = 200,
                       http_body = ParksBody
                         \<lparr>parks = parksWithCoordinates,
                          total = length parksWithCoordinates,
                          parks_timestamp = now\<rparr>\<rparr>)))"

section \<open>The health endpoint (\<open>api/health/route.ts\<close>)\<close>

text \<open>The upstream health body, as far as the handler reads it.\<close>

record HealthResponse =
  health_status :: "string option"
  models_loaded :: "real option"
  database_connected :: "bool option"

record process_env =
  ML_SERVICE_URL :: "string option"
  NEXT_PUBLIC_APP_VERSION :: "string option"
  NODE_ENV :: "string option"

record frontend_t =
  frontend_status :: string
  version :: string

record ml_service_t =
  ml_service_status :: "string option"
  url :: string
  ml_models_loaded :: real
  ml_database_connected :: bool

record healthData =
  status :: string
  health_timestamp :: string
  frontend :: frontend_t
  ml_service :: ml_service_t
  response_time_ms :: int
  environment :: string

text \<open>
  The three locals after the \<open>try\<close> block. They start as \<open>'unknown'\<close>, \<open>0\<close>, \<open>false\<close>; the
  status is overwritten on every path, the other two only after the body was parsed.
\<close>

definition probe :: "HealthResponse fetch_result \<Rightarrow> string option \<times> real \<times> bool" where
  "probe upstream =
     (case upstream of
        Rejected e \<Rightarrow> (Some ''unavailable'', 0, False)
      | Resolved st txt parsed \<Rightarrow>
          if response_ok st
          then
            (case parsed of
               Inl e \<Rightarrow> (Some ''unavailable'', 0, False)
             | Inr mlHealth \<Rightarrow>
                 (health_status mlHealth,
                  (case models_loaded mlHealth of None \<Rightarrow> 0 | Some n \<Rightarrow> n),
                  (case database_connected mlHealth of None \<Rightarrow> False | Some b \<Rightarrow> b)))
          else (Some ''error'', 0, False))"

text \<open>
  \<open>GET\<close> of the health route; \<open>startTime\<close> and \<open>endTime\<close> are the two readings of
  \<open>Date.now()\<close>, \<open>now\<close> the timestamp.
\<close>

definition health_GET ::
  "process_env \<Rightarrow> int \<Rightarrow> int \<Rightarrow> string \<Rightarrow> HealthResponse fetch_result \<Rightarrow> healthData http_response" where
  "health_GET env startTime endTime now upstream =
     (case probe upstream of
        (mlServiceStatus, mlModelsLoaded, dbConnected) \<Rightarrow>
          (let responseTime = endTime - startTime;
               health =
                 \<lparr>status = (if mlServiceStatus = Some ''healthy'' then ''healthy'' else ''degraded''),
                  health_timestamp = now,
                  frontend =
                    \<lparr>frontend_status = ''healthy'',
                     version = string_or (NEXT_PUBLIC_APP_VERSION env) ''1.0.0''\<rparr>,
                  ml_service =
                    \<lparr>ml_service_status = mlServiceStatus,
                     url = string_or (ML_SERVICE_URL env) ''http://localhost:8000'',
                     ml_models_loaded = mlModelsLoaded,
                     ml_database_connected = dbConnected\<rparr>,
                  response_time_ms = responseTime,
                  environment = string_or (NODE_ENV env) ''development''\<rparr>;
               statusCode = (if mlServiceStatus = Some ''healthy'' then 200 else 503)
           in \<lparr>http_status = statusCode, http_body = health\<rparr>))"

section \<open>The map aggregation of the dashboard (\<open>loadMapPredictions\<close>)\<close>

text \<open>
  What the browser's \<open>fetch("/api/predict", ...)\<close> yields for a request: a rejection
  (network error), or a response with a status and the outcome of \<open>response.json()\<close>,
  \<open>None\<close> when that throws.
\<close>

datatype api_fetch =
  ApiRejected
| ApiResolved nat "predict_body option"

text \<open>
  The state variable \<open>parks\<close> is set from the \<open>parks\<close> property of the listing response
  without a check. The statements of the outer \<open>try\<close> block throw when it does not hold
  an array of park objects (\<open>parks.filter\<close> is then not a function, or reading
  \<open>has_model\<close> of an element fails); that value is \<open>NotParkArray\<close>.
\<close>

datatype parks_value =
  ParkArray "Park list"
| NotParkArray

record dashboard_state =
  mapPredictions :: "string \<rightharpoonup> predict_body"
  error :: "string option"
  mapPredictionsLoading :: bool

definition baseDate :: string where
  "baseDate = ''2025-07-04''"

text \<open>
  \<open>getTime s\<close> is \<open>new Date(s).getTime()\<close> in milliseconds, \<open>None\<close> for NaN (an invalid
  date). \<open>Math.ceil\<close> of NaN is NaN.
\<close>

definition daysFromBase :: "(string \<Rightarrow> int option) \<Rightarrow> string \<Rightarrow> int option" where
  "daysFromBase getTime selectedMapDate =
     (case getTime selectedMapDate of
        None \<Rightarrow> None
      | Some selectedDateTime \<Rightarrow>
          (case getTime baseDate of
             None \<Rightarrow> None
           | Some baseDateTime \<Rightarrow>
               Some \<lceil>real_of_int (selectedDateTime - baseDateTime) / (1000 * 60 * 60 * 24)\<rceil>))"

text \<open>
  The request built for one park. \<open>Math.max(1, NaN)\<close> is NaN, which \<open>JSON.stringify\<close>
  writes as \<open>null\<close>: the property is then \<open>None\<close>.
\<close>

definition map_request :: "int option \<Rightarrow> Park \<Rightarrow> PredictionRequest" where
  "map_request days park =
     \<lparr>req_park_id = Some (park_id park),
      start_date = Some baseDate,
      days_ahead = map_option (\<lambda>d. real_of_int (max 1 (d + 1))) days\<rparr>"

text \<open>\<open>if (data.predictions) data.predictions = data.predictions.filter(...)\<close>.\<close>

definition filter_predictions :: "string \<Rightarrow> predict_body \<Rightarrow> predict_body" where
  "filter_predictions selectedMapDate data =
     (case data of
        ErrorBody m \<Rightarrow> ErrorBody m
      | PredictionBody r \<Rightarrow>
          PredictionBody
            (r\<lparr>predictions := filter (\<lambda>pred. ds pred = selectedMapDate) (predictions r)\<rparr>))"

text \<open>The callback of \<open>parksWithModels.map\<close>, with its own \<open>try\<close>/\<open>catch\<close>; \<open>None\<close> is \<open>null\<close>.\<close>

definition park_prediction ::
  "(PredictionRequest \<Rightarrow> api_fetch) \<Rightarrow> string \<Rightarrow> int option \<Rightarrow> Park \<Rightarrow>
   (string \<times> predict_body) option" where
  "park_prediction fetch_predict selectedMapDate days park =
     (case fetch_predict (map_request days park) of
        ApiRejected \<Rightarrow> None
      | ApiResolved st parsed \<Rightarrow>
          if response_ok st
          then
            (case parsed of
               None \<Rightarrow> None
             | Some data \<Rightarrow> Some (park_id park, filter_predictions selectedMapDate data))
          else None)"

text \<open>\<open>results.forEach\<close>: a later result for the same key overwrites an earlier one.\<close>

definition collect_results ::
  "(string \<times> predict_body) option list \<Rightarrow> (string \<rightharpoonup> predict_body)" where
  "collect_results results =
     fold (\<lambda>result newMapPredictions.
             case result of
               None \<Rightarrow> newMapPredictions
             | Some (k, data) \<Rightarrow> newMapPredictions(k \<mapsto> data))
       results Map.empty"

text \<open>
  \<open>loadMapPredictions\<close>: the state after the run, and the requests issued, in order.
\<close>

definition loadMapPredictions ::
  "(string \<Rightarrow> int option) \<Rightarrow> (PredictionRequest \<Rightarrow> api_fetch) \<Rightarrow> parks_value \<Rightarrow> string \<Rightarrow>
   dashboard_state \<Rightarrow> dashboard_state \<times> PredictionRequest list" where
  "loadMapPredictions getTime fetch_predict parks_v selectedMapDate s0 =
     (let s1 = s0\<lparr>mapPredictionsLoading := True\<rparr>;
          s2 = s1\<lparr>error := None\<rparr>
      in case parks_v of
           NotParkArray \<Rightarrow>
             (s2\<lparr>error := Some ''Failed to load some predictions for map view'',
                 mapPredictionsLoading := False\<rparr>, [])
         | ParkArray ps \<Rightarrow>
             (let parksWithModels = filter has_model ps;
                  days = daysFromBase getTime selectedMapDate;
                  results = map (park_prediction fetch_predict selectedMapDate days) parksWithModels
              in (s2\<lparr>mapPredictions := collect_results results,
                      mapPredictionsLoading := False\<rparr>,
                  map (map_request days) parksWithModels)))"


text \<open>
  A per-park call that fails: the fetch rejects, the response is not 2xx, or reading its
  body throws. These are the paths on which the callback yields \<open>null\<close>.
\<close>

definition call_failed :: "api_fetch \<Rightarrow> bool" where
  "call_failed outcome =
     (case outcome of
        ApiRejected \<Rightarrow> True
      | ApiResolved st parsed \<Rightarrow> \<not> response_ok st \<or> parsed = None)"

section \<open>Properties of the prediction endpoint\<close>


lemma NextResponse_json_Inr:
  "NextResponse_json data st = Inr response \<Longrightarrow> response = \<lparr>http_status = st, http_body = data\<rparr>"
  by (simp add: NextResponse_json_def split: if_splits)

lemma predict_catch_not_ok: "\<not> response_ok (http_status (predict_catch e))"
  by (simp add: predict_catch_def response_ok_def)

lemma predict_catch_error_body: "http_body (predict_catch e) \<noteq> PredictionBody r"
  by (simp add: predict_catch_def)

lemma response_ok_constants:
  "response_ok 200" "\<not> response_ok 400" "\<not> response_ok 503"
  by (simp_all add: response_ok_def)

text \<open>
  A response with a 2xx status is produced on one path only: the request body parsed and
  passed validation, the upstream answered 2xx with a parsed body whose success flag is
  set and whose predictions are present.
\<close>

lemma POST_ok_success:
  assumes "response_ok (http_status (fst (POST now ml request)))"
  shows "\<exists>b s etext m preds. request = Inr b \<and> ml b = Resolved s etext (Inr m) \<and> response_ok s
      \<and> success m \<and> ml_predictions m = Some preds
      \<and> fst (POST now ml request) =
          \<lparr>http_status = 200,
           http_body = PredictionBody
             \<lparr>predictions = map transform preds, resp_park_id = req_park_id b,
              confidence_level = 80, model_performance = \<lparr>mape = 0, mae = 0, rmse = 0\<rparr>,
              timestamp = now, request_params = b\<rparr>\<rparr>"
  using assms
  by (auto simp add: POST_def predict_catch_not_ok response_ok_constants
      split: if_splits sum.splits fetch_result.splits option.splits
      dest!: NextResponse_json_Inr)

lemma POST_body_success:
  assumes "http_body (fst (POST now ml request)) = PredictionBody r"
  shows "response_ok (http_status (fst (POST now ml request)))"
  using assms
  by (auto simp add: POST_def predict_catch_error_body response_ok_constants
      split: if_splits sum.splits fetch_result.splits option.splits
      dest!: NextResponse_json_Inr)

text \<open>
  C1. A body with all three fields present and \<open>days_ahead = 0\<close> is rejected with status
  400, but with the message for missing fields: \<open>!body.days_ahead\<close> holds for the number
  zero, so the presence check fires before the range check is reached.
\<close>

theorem predict_zero_days_reported_missing:
  "POST now ml (Inr \<lparr>req_park_id = Some ''YELL'', start_date = Some ''2025-07-04'',
                      days_ahead = Some 0\<rparr>)
   = (\<lparr>http_status = 400,
       http_body = ErrorBody ''Missing required fields: park_id, start_date, days_ahead''\<rparr>, [])"
  by (simp add: POST_def truthy_string_def truthy_number_def)

theorem predict_zero_days_reported_missing_witness:
  "POST ''2025-07-01T00:00:00.000Z'' (\<lambda>request. Rejected (JsError True True ''TypeError'' ''fetch failed''))
     (Inr \<lparr>req_park_id = Some ''YELL'', start_date = Some ''2025-07-04'', days_ahead = Some 0\<rparr>)
   = (\<lparr>http_status = 400,
       http_body = ErrorBody ''Missing required fields: park_id, start_date, days_ahead''\<rparr>, [])"
  using predict_zero_days_reported_missing
    [of "''2025-07-01T00:00:00.000Z''" "\<lambda>request. Rejected (JsError True True ''TypeError'' ''fetch failed'')"]
  by simp

text \<open>
  For every other out-of-range number the range check is the one that rejects: all three
  properties truthy and \<open>days_ahead\<close> below 1 or above 365.
\<close>

lemma predict_range_error_when_nonzero:
  assumes "truthy_string (req_park_id b)" and "truthy_string (start_date b)"
    and "days_ahead b = Some d" and "d \<noteq> 0" and "d < 1 \<or> d > 365"
  shows "POST now ml (Inr b)
         = (\<lparr>http_status = 400, http_body = ErrorBody ''days_ahead must be between 1 and 365''\<rparr>, [])"
  using assms by (simp add: POST_def truthy_number_def number_lt_def number_gt_def)

text \<open>
  C5. The translation of one upstream record is a renaming of its four fields, with every
  value unchanged; and whenever the endpoint answers with a prediction body, its
  predictions are the upstream predictions translated one by one, in the same order and
  of the same length.
\<close>

theorem predictions_translated_by_renaming:
  "transform \<lparr>date = d, predicted_visitors = v, lower_bound = lo, upper_bound = hi,
              confidence_interval = c\<rparr>
   = \<lparr>ds = d, yhat = v, yhat_lower = lo, yhat_upper = hi\<rparr>
   \<and> (http_body (fst (POST now ml request)) = PredictionBody r \<longrightarrow>
        (\<exists>b s etext m preds.
           request = Inr b \<and> ml b = Resolved s etext (Inr m) \<and> ml_predictions m = Some preds
           \<and> length (predictions r) = length preds
           \<and> (\<forall>i < length preds.
                 predictions r ! i =
                   \<lparr>ds = date (preds ! i), yhat = predicted_visitors (preds ! i),
                    yhat_lower = lower_bound (preds ! i), yhat_upper = upper_bound (preds ! i)\<rparr>)))"
proof (intro conjI impI)
  show "transform \<lparr>date = d, predicted_visitors = v, lower_bound = lo, upper_bound = hi,
              confidence_interval = c\<rparr>
        = \<lparr>ds = d, yhat = v, yhat_lower = lo, yhat_upper = hi\<rparr>"
    by (simp add: transform_def)
next
  assume r: "http_body (fst (POST now ml request)) = PredictionBody r"
  then have "response_ok (http_status (fst (POST now ml request)))"
    by (rule POST_body_success)
  from POST_ok_success[OF this] r obtain b s etext m preds where
    "request = Inr b" "ml b = Resolved s etext (Inr m)" "ml_predictions m = Some preds"
    "predictions r = map transform preds"
    by auto
  then show "\<exists>b s etext m preds.
           request = Inr b \<and> ml b = Resolved s etext (Inr m) \<and> ml_predictions m = Some preds
           \<and> length (predictions r) = length preds
           \<and> (\<forall>i < length preds.
                 predictions r ! i =
                   \<lparr>ds = date (preds ! i), yhat = predicted_visitors (preds ! i),
                    yhat_lower = lower_bound (preds ! i), yhat_upper = upper_bound (preds ! i)\<rparr>)"
    by (auto simp add: transform_def)
qed

theorem predictions_translated_by_renaming_witness:
  "http_body (fst (POST ''2025-07-01T00:00:00.000Z''
        (\<lambda>request. Resolved 200 (Inr '''')
           (Inr \<lparr>success = True, ml_park_id = ''YELL'',
                 ml_predictions = Some
                   [\<lparr>date = ''2025-07-10'', predicted_visitors = 1200, lower_bound = 900,
                     upper_bound = 1500, confidence_interval = ''80%''\<rparr>],
                 ml_error = None\<rparr>))
        (Inr \<lparr>req_park_id = Some ''YELL'', start_date = Some ''2025-07-10'', days_ahead = Some 1\<rparr>)))
   = PredictionBody
       \<lparr>predictions = [\<lparr>ds = ''2025-07-10'', yhat = 1200, yhat_lower = 900, yhat_upper = 1500\<rparr>],
        resp_park_id = Some ''YELL'', confidence_level = 80,
        model_performance = \<lparr>mape = 0, mae = 0, rmse = 0\<rparr>,
        timestamp = ''2025-07-01T00:00:00.000Z'',
        request_params =
          \<lparr>req_park_id = Some ''YELL'', start_date = Some ''2025-07-10'', days_ahead = Some 1\<rparr>\<rparr>
   \<and> (\<exists>preds.
         (\<lambda>request :: PredictionRequest. Resolved 200 (Inr '''')
           (Inr \<lparr>success = True, ml_park_id = ''YELL'',
                 ml_predictions = Some
                   [\<lparr>date = ''2025-07-10'', predicted_visitors = 1200, lower_bound = 900,
                     upper_bound = 1500, confidence_interval = ''80%''\<rparr>],
                 ml_error = None\<rparr>))
           \<lparr>req_park_id = Some ''YELL'', start_date = Some ''2025-07-10'', days_ahead = Some 1\<rparr>
         = Resolved 200 (Inr '''') (Inr \<lparr>success = True, ml_park_id = ''YELL'',
                                   ml_predictions = Some preds, ml_error = None\<rparr>)
       \<and> length [\<lparr>ds = ''2025-07-10'', yhat = 1200, yhat_lower = 900, yhat_upper = (1500::real)\<rparr>]
           = length preds
       \<and> [\<lparr>ds = ''2025-07-10'', yhat = 1200, yhat_lower = 900, yhat_upper = 1500\<rparr>] ! 0
           = \<lparr>ds = date (preds ! 0), yhat = predicted_visitors (preds ! 0),
              yhat_lower = lower_bound (preds ! 0), yhat_upper = upper_bound (preds ! 0)\<rparr>)"
proof -
  let ?M = "\<lambda>request :: PredictionRequest. Resolved 200 (Inr '''')
           (Inr \<lparr>success = True, ml_park_id = ''YELL'',
                 ml_predictions = Some
                   [\<lparr>date = ''2025-07-10'', predicted_visitors = 1200, lower_bound = 900,
                     upper_bound = 1500, confidence_interval = ''80%''\<rparr>],
                 ml_error = None\<rparr>)"
  let ?b = "\<lparr>req_park_id = Some ''YELL'', start_date = Some ''2025-07-10'', days_ahead = Some 1\<rparr>"
  let ?R = "\<lparr>predictions = [\<lparr>ds = ''2025-07-10'', yhat = 1200, yhat_lower = 900, yhat_upper = 1500\<rparr>],
        resp_park_id = Some ''YELL'', confidence_level = 80,
        model_performance = \<lparr>mape = 0, mae = 0, rmse = 0\<rparr>,
        timestamp = ''2025-07-01T00:00:00.000Z'',
        request_params = ?b\<rparr>"
  have h: "http_body (fst (POST ''2025-07-01T00:00:00.000Z'' ?M (Inr ?b))) = PredictionBody ?R"
    by (simp add: POST_def truthy_string_def truthy_number_def number_lt_def number_gt_def
        response_ok_def transform_def)
  from predictions_translated_by_renaming
    [of "''2025-07-10''" 1200 900 1500 "''80%''" "''2025-07-01T00:00:00.000Z''" ?M "Inr ?b" ?R] h
  obtain b s etext m preds where
    "?M b = Resolved s etext (Inr m)" and "ml_predictions m = Some preds"
    and len: "length (predictions ?R) = length preds"
    and nth: "\<forall>i < length preds.
                 predictions ?R ! i =
                   \<lparr>ds = date (preds ! i), yhat = predicted_visitors (preds ! i),
                    yhat_lower = lower_bound (preds ! i), yhat_upper = upper_bound (preds ! i)\<rparr>"
    by blast
  then have p: "preds = [\<lparr>date = ''2025-07-10'', predicted_visitors = 1200, lower_bound = 900,
                     upper_bound = 1500, confidence_interval = ''80%''\<rparr>]"
    by auto
  from h p show ?thesis by simp
qed

text \<open>
  C6. A request with a missing (or empty) field, or with \<open>days_ahead\<close> below 1 or above
  365, is answered with status 400 and one of the two validation messages, and no
  request is sent upstream.
\<close>

theorem invalid_request_no_upstream_call:
  assumes "\<not> truthy_string (req_park_id b) \<or> \<not> truthy_string (start_date b) \<or> days_ahead b = None
           \<or> (\<exists>d. days_ahead b = Some d \<and> (d < 1 \<or> d > 365))"
  shows "http_status (fst (POST now ml (Inr b))) = 400
     \<and> (http_body (fst (POST now ml (Inr b)))
            = ErrorBody ''Missing required fields: park_id, start_date, days_ahead''
        \<or> http_body (fst (POST now ml (Inr b))) = ErrorBody ''days_ahead must be between 1 and 365'')
     \<and> snd (POST now ml (Inr b)) = []"
  using assms
  by (auto simp add: POST_def truthy_number_def number_lt_def number_gt_def)

theorem invalid_request_no_upstream_call_witness:
  "(\<exists>d. days_ahead \<lparr>req_park_id = Some ''YELL'', start_date = Some ''2025-07-04'',
                     days_ahead = Some 366\<rparr> = Some d \<and> (d < 1 \<or> d > 365))
   \<and> http_status (fst (POST ''2025-07-01T00:00:00.000Z''
         (\<lambda>request. Resolved 200 (Inr '''') (Inl (JsError True False ''SyntaxError'' '''')))
         (Inr \<lparr>req_park_id = Some ''YELL'', start_date = Some ''2025-07-04'',
               days_ahead = Some 366\<rparr>))) = 400
   \<and> snd (POST ''2025-07-01T00:00:00.000Z''
         (\<lambda>request. Resolved 200 (Inr '''') (Inl (JsError True False ''SyntaxError'' '''')))
         (Inr \<lparr>req_park_id = Some ''YELL'', start_date = Some ''2025-07-04'',
               days_ahead = Some 366\<rparr>)) = []"
proof -
  have h: "\<exists>d. days_ahead \<lparr>req_park_id = Some ''YELL'', start_date = Some ''2025-07-04'',
                     days_ahead = Some 366\<rparr> = Some d \<and> (d < 1 \<or> d > 365)"
    by simp
  then have "\<not> truthy_string (req_park_id \<lparr>req_park_id = Some ''YELL'', start_date = Some ''2025-07-04'',
                     days_ahead = Some 366\<rparr>)
      \<or> \<not> truthy_string (start_date \<lparr>req_park_id = Some ''YELL'', start_date = Some ''2025-07-04'',
                     days_ahead = Some 366\<rparr>)
      \<or> days_ahead \<lparr>req_park_id = Some ''YELL'', start_date = Some ''2025-07-04'',
                     days_ahead = Some 366\<rparr> = None
      \<or> (\<exists>d. days_ahead \<lparr>req_park_id = Some ''YELL'', start_date = Some ''2025-07-04'',
                     days_ahead = Some 366\<rparr> = Some d \<and> (d < 1 \<or> d > 365))"
    by blast
  from invalid_request_no_upstream_call[OF this] h show ?thesis by blast
qed

text \<open>
  C9. Every response with a 2xx status carries a prediction body whose confidence level
  is 80, whose model performance is all zeros, whose timestamp is the clock reading and
  whose \<open>request_params\<close> is the request body, whatever the request and the upstream
  values are.
\<close>

theorem success_response_fixed_fields:
  assumes "response_ok (http_status (fst (POST now ml request)))"
  shows "\<exists>b r. request = Inr b \<and> http_body (fst (POST now ml request)) = PredictionBody r
     \<and> confidence_level r = 80
     \<and> model_performance r = \<lparr>mape = 0, mae = 0, rmse = 0\<rparr>
     \<and> timestamp r = now
     \<and> request_params r = b"
  using POST_ok_success[OF assms] by auto

theorem success_response_fixed_fields_witness:
  "response_ok (http_status (fst (POST ''2025-07-01T00:00:00.000Z''
        (\<lambda>request. Resolved 200 (Inr '''')
           (Inr \<lparr>success = True, ml_park_id = ''YELL'',
                 ml_predictions = Some
                   [\<lparr>date = ''2025-07-10'', predicted_visitors = 1200, lower_bound = 900,
                     upper_bound = 1500, confidence_interval = ''80%''\<rparr>],
                 ml_error = None\<rparr>))
        (Inr \<lparr>req_park_id = Some ''YELL'', start_date = Some ''2025-07-10'', days_ahead = Some 1\<rparr>))))
   \<and> (\<exists>r. http_body (fst (POST ''2025-07-01T00:00:00.000Z''
        (\<lambda>request. Resolved 200 (Inr '''')
           (Inr \<lparr>success = True, ml_park_id = ''YELL'',
                 ml_predictions = Some
                   [\<lparr>date = ''2025-07-10'', predicted_visitors = 1200, lower_bound = 900,
                     upper_bound = 1500, confidence_interval = ''80%''\<rparr>],
                 ml_error = None\<rparr>))
        (Inr \<lparr>req_park_id = Some ''YELL'', start_date = Some ''2025-07-10'', days_ahead = Some 1\<rparr>)))
          = PredictionBody r
        \<and> confidence_level r = 80 \<and> timestamp r = ''2025-07-01T00:00:00.000Z'')"
proof -
  have h: "response_ok (http_status (fst (POST ''2025-07-01T00:00:00.000Z''
        (\<lambda>request. Resolved 200 (Inr '''')
           (Inr \<lparr>success = True, ml_park_id = ''YELL'',
                 ml_predictions = Some
                   [\<lparr>date = ''2025-07-10'', predicted_visitors = 1200, lower_bound = 900,
                     upper_bound = 1500, confidence_interval = ''80%''\<rparr>],
                 ml_error = None\<rparr>))
        (Inr \<lparr>req_park_id = Some ''YELL'', start_date = Some ''2025-07-10'', days_ahead = Some 1\<rparr>))))"
    by (simp add: POST_def truthy_string_def truthy_number_def number_lt_def number_gt_def
        response_ok_def)
  from success_response_fixed_fields[OF h] h show ?thesis by blast
qed

section \<open>Properties of the handling of upstream failures\<close>

text \<open>
  C4, for a body text that was read and a status that can carry a body. Let the
  upstream answer with a status that is not 2xx. If the status
  is 500 or more, the listing endpoint answers 503 with one fixed message, and so does
  the prediction endpoint (for a request that passed validation) once the body text has
  been read; the upstream text does not occur in that message. If the status is between
  200 and 499 and is not 304, and the body text has been read, both endpoints pass the
  status on unchanged, with the upstream text appended to the message.
\<close>

theorem upstream_failure_status_mapping:
  assumes "\<not> response_ok st"
    and "truthy_string (req_park_id b)" and "truthy_string (start_date b)"
    and "days_ahead b = Some d" and "1 \<le> d" and "d \<le> 365"
    and "ml b = Resolved st (Inr etext) parsed"
  shows "(st \<ge> 500 \<longrightarrow>
            fst (POST now ml (Inr b)) =
              \<lparr>http_status = 503,
               http_body = ErrorBody ''ML service is currently unavailable. Please try again later.''\<rparr>
          \<and> parks_GET now (Resolved st body_text' parsed') =
              \<lparr>http_status = 503,
               http_body = ParksError ''ML service is currently unavailable. Please try again later.''\<rparr>)
       \<and> (st < 500 \<longrightarrow> 200 \<le> st \<longrightarrow> st \<noteq> 304 \<longrightarrow>
            fst (POST now ml (Inr b)) =
              \<lparr>http_status = st, http_body = ErrorBody (''ML service error: '' @ etext)\<rparr>
          \<and> parks_GET now (Resolved st (Inr etext) parsed') =
              \<lparr>http_status = st, http_body = ParksError (''ML service error: '' @ etext)\<rparr>)"
proof (intro conjI impI)
  assume "st \<ge> 500"
  with assms show "fst (POST now ml (Inr b)) =
              \<lparr>http_status = 503,
               http_body = ErrorBody ''ML service is currently unavailable. Please try again later.''\<rparr>"
    by (simp add: POST_def truthy_number_def number_lt_def number_gt_def)
next
  assume "st \<ge> 500"
  with assms(1) show "parks_GET now (Resolved st body_text' parsed') =
              \<lparr>http_status = 503,
               http_body = ParksError ''ML service is currently unavailable. Please try again later.''\<rparr>"
    by (simp add: parks_GET_def)
next
  assume range: "st < 500" "200 \<le> st" "st \<noteq> 304"
  with assms(1) have built: "NextResponse_json data st = Inr \<lparr>http_status = st, http_body = data\<rparr>" for data :: 'z
    by (auto simp add: NextResponse_json_def null_body_status_def response_ok_def)
  from assms range show "fst (POST now ml (Inr b)) =
              \<lparr>http_status = st, http_body = ErrorBody (''ML service error: '' @ etext)\<rparr>"
    by (simp add: POST_def truthy_number_def number_lt_def number_gt_def built)
  from assms(1) range show "parks_GET now (Resolved st (Inr etext) parsed') =
              \<lparr>http_status = st, http_body = ParksError (''ML service error: '' @ etext)\<rparr>"
    by (simp add: parks_GET_def built)
qed

theorem upstream_failure_status_mapping_witness:
  "\<not> response_ok 404 \<and> \<not> response_ok 502
   \<and> fst (POST ''2025-07-01T00:00:00.000Z''
          (\<lambda>request. Resolved 404 (Inr ''park not found'') (Inl (JsError True False ''SyntaxError'' '''')))
          (Inr \<lparr>req_park_id = Some ''YELL'', start_date = Some ''2025-07-04'', days_ahead = Some 5\<rparr>))
       = \<lparr>http_status = 404, http_body = ErrorBody ''ML service error: park not found''\<rparr>
   \<and> parks_GET ''2025-07-01T00:00:00.000Z''
          (Resolved 502 (Inr ''bad gateway: db at 10.0.0.7 refused'') (Inr []))
       = \<lparr>http_status = 503,
          http_body = ParksError ''ML service is currently unavailable. Please try again later.''\<rparr>"
proof -
  let ?b = "\<lparr>req_park_id = Some ''YELL'', start_date = Some ''2025-07-04'', days_ahead = Some 5\<rparr>"
  let ?M1 = "\<lambda>request :: PredictionRequest.
               Resolved 404 (Inr ''park not found'')
                 (Inl (JsError True False ''SyntaxError'' '''') :: js_error + MLServiceResponse)"
  let ?M2 = "\<lambda>request :: PredictionRequest.
               Resolved 502 (Inr ''bad gateway: db at 10.0.0.7 refused'')
                 (Inl (JsError True False ''SyntaxError'' '''') :: js_error + MLServiceResponse)"
  have a: "\<not> response_ok 404" and b: "\<not> response_ok 502"
    by (simp_all add: response_ok_def)
  have t: "truthy_string (req_park_id ?b)" "truthy_string (start_date ?b)"
    "days_ahead ?b = Some 5" "(1::real) \<le> 5" "(5::real) \<le> 365"
    by (simp_all add: truthy_string_def)
  have m1: "?M1 ?b = Resolved 404 (Inr ''park not found'') (Inl (JsError True False ''SyntaxError'' ''''))"
    by simp
  have m2: "?M2 ?b = Resolved 502 (Inr ''bad gateway: db at 10.0.0.7 refused'')
                       (Inl (JsError True False ''SyntaxError'' ''''))"
    by simp
  from upstream_failure_status_mapping
    [OF a t m1, of "''2025-07-01T00:00:00.000Z''" "Inr ''''" "Inr ([] :: Park list)"]
  have p: "fst (POST ''2025-07-01T00:00:00.000Z'' ?M1 (Inr ?b))
       = \<lparr>http_status = 404, http_body = ErrorBody ''ML service error: park not found''\<rparr>"
    by simp
  from upstream_failure_status_mapping
    [OF b t m2, of "''2025-07-01T00:00:00.000Z''" "Inr ''bad gateway: db at 10.0.0.7 refused''"
       "Inr ([] :: Park list)"]
  have q: "parks_GET ''2025-07-01T00:00:00.000Z''
          (Resolved 502 (Inr ''bad gateway: db at 10.0.0.7 refused'') (Inr []))
       = \<lparr>http_status = 503,
          http_body = ParksError ''ML service is currently unavailable. Please try again later.''\<rparr>"
    by simp
  from a b p q show ?thesis by blast
qed

text \<open>
  C4 without these two restrictions fails. An upstream 304 cannot be passed on with a body: building the
  response throws, and both handlers answer 500 from their \<open>catch\<close> block. An upstream
  500 whose body cannot be read makes the prediction handler answer 500 and not 503,
  since it reads the body text before it tests the status.
\<close>

theorem upstream_not_modified_answered_500:
  "parks_GET ''2025-07-01T00:00:00.000Z'' (Resolved 304 (Inr ''not modified'') (Inr []))
     = \<lparr>http_status = 500,
        http_body = ParksError ''An unexpected error occurred while fetching parks.''\<rparr>
   \<and> fst (POST ''2025-07-01T00:00:00.000Z''
          (\<lambda>request. Resolved 304 (Inr ''not modified'') (Inl (JsError True False ''SyntaxError'' '''')))
          (Inr \<lparr>req_park_id = Some ''YELL'', start_date = Some ''2025-07-04'', days_ahead = Some 5\<rparr>))
     = \<lparr>http_status = 500,
        http_body = ErrorBody ''An unexpected error occurred while generating predictions.''\<rparr>
   \<and> fst (POST ''2025-07-01T00:00:00.000Z''
          (\<lambda>request. Resolved 500 (Inl (JsError True True ''TypeError'' ''terminated''))
                        (Inl (JsError True True ''TypeError'' ''terminated'')))
          (Inr \<lparr>req_park_id = Some ''YELL'', start_date = Some ''2025-07-04'', days_ahead = Some 5\<rparr>))
     = \<lparr>http_status = 500,
        http_body = ErrorBody ''An unexpected error occurred while generating predictions.''\<rparr>"
  by (simp add: parks_GET_def POST_def parks_catch_def predict_catch_def NextResponse_json_def
      null_body_status_def response_ok_def truthy_string_def truthy_number_def
      number_lt_def number_gt_def)

section \<open>Properties of the park listing endpoint\<close>

lemma parks_catch_not_ok: "\<not> response_ok (http_status (parks_catch e))"
  by (simp add: parks_catch_def response_ok_def)

lemma PARK_COORDINATES_YELL:
  "map_of PARK_COORDINATES ''YELL'' = Some \<lparr>lat = 44.428, lng = - 110.588\<rparr>"
  by (simp add: PARK_COORDINATES_def)

lemma add_coordinates_park_id: "park_id (add_coordinates park) = park_id park"
  by (simp add: add_coordinates_def Let_def)

lemma parks_GET_parsed:
  assumes "response_ok st"
  shows "parks_GET now (Resolved st etext (Inr ps)) =
           \<lparr>http_status = 200,
            http_body = ParksBody \<lparr>parks = map add_coordinates ps, total = length ps,
                                  parks_timestamp = now\<rparr>\<rparr>"
  using assms by (simp add: parks_GET_def Let_def)

text \<open>
  C8. When the upstream answers the listing call with a parsed list, the endpoint
  answers 200 with one park per upstream park, in order. A park with identifier
  \<open>YELL\<close> has latitude 44.428 and longitude -110.588; a park whose identifier is not a
  key of the table has neither latitude nor longitude, and the answer is still 200.
\<close>

theorem yell_coordinates_attached:
  assumes "response_ok st"
  shows "\<exists>r. parks_GET now (Resolved st etext (Inr ps)) = \<lparr>http_status = 200, http_body = ParksBody r\<rparr>
     \<and> length (parks r) = length ps
     \<and> (\<forall>i < length ps.
           park_id (parks r ! i) = park_id (ps ! i)
         \<and> (park_id (ps ! i) = ''YELL'' \<longrightarrow>
              latitude (parks r ! i) = Some 44.428 \<and> longitude (parks r ! i) = Some (- 110.588))
         \<and> (park_id (ps ! i) \<notin> fst ` set PARK_COORDINATES \<longrightarrow>
              latitude (parks r ! i) = None \<and> longitude (parks r ! i) = None))"
proof -
  have "latitude (add_coordinates p) = Some 44.428 \<and> longitude (add_coordinates p) = Some (- 110.588)"
    if "park_id p = ''YELL''" for p
    using that by (simp add: add_coordinates_def Let_def PARK_COORDINATES_YELL)
  moreover have "latitude (add_coordinates p) = None \<and> longitude (add_coordinates p) = None"
    if "park_id p \<notin> fst ` set PARK_COORDINATES" for p
  proof -
    from that have "map_of PARK_COORDINATES (park_id p) = None"
      by (simp add: map_of_eq_None_iff)
    then show ?thesis by (simp add: add_coordinates_def Let_def)
  qed
  ultimately show ?thesis
    using parks_GET_parsed[OF assms, of now etext ps]
    by (simp add: add_coordinates_park_id)
qed

theorem yell_coordinates_attached_witness:
  "response_ok 200
   \<and> ''XXXX'' \<notin> fst ` set PARK_COORDINATES
   \<and> (\<exists>r. parks_GET ''2025-07-01T00:00:00.000Z''
        (Resolved 200 (Inr '''')
          (Inr [\<lparr>park_id = ''YELL'', name = ''Yellowstone'', state = ''WY'', region = ''Intermountain'',
                 park_type = ''National Park'', has_model = True, data_available = None,
                 last_training = None, latitude = None, longitude = None,
                 visitor_stats = None, metadata = None\<rparr>,
                \<lparr>park_id = ''XXXX'', name = ''Unlisted'', state = ''WY'', region = ''Intermountain'',
                 park_type = ''National Park'', has_model = False, data_available = None,
                 last_training = None, latitude = Some 1, longitude = Some 2,
                 visitor_stats = None, metadata = None\<rparr>]))
        = \<lparr>http_status = 200, http_body = ParksBody r\<rparr>
      \<and> latitude (parks r ! 0) = Some 44.428 \<and> longitude (parks r ! 0) = Some (- 110.588)
      \<and> latitude (parks r ! 1) = None \<and> longitude (parks r ! 1) = None)"
proof -
  have ok: "response_ok 200" by (simp add: response_ok_def)
  have absent: "''XXXX'' \<notin> fst ` set PARK_COORDINATES"
    by (simp add: PARK_COORDINATES_def)
  let ?ps = "[\<lparr>park_id = ''YELL'', name = ''Yellowstone'', state = ''WY'', region = ''Intermountain'',
                 park_type = ''National Park'', has_model = True, data_available = None,
                 last_training = None, latitude = None, longitude = None,
                 visitor_stats = None, metadata = None\<rparr>,
                \<lparr>park_id = ''XXXX'', name = ''Unlisted'', state = ''WY'', region = ''Intermountain'',
                 park_type = ''National Park'', has_model = False, data_available = None,
                 last_training = None, latitude = Some 1, longitude = Some 2,
                 visitor_stats = None, metadata = None\<rparr>]"
  from yell_coordinates_attached[OF ok, of "''2025-07-01T00:00:00.000Z''" "Inr ''''" ?ps]
  obtain r where r: "parks_GET ''2025-07-01T00:00:00.000Z'' (Resolved 200 (Inr '''') (Inr ?ps))
        = \<lparr>http_status = 200, http_body = ParksBody r\<rparr>"
    and every: "\<forall>i < length ?ps.
           park_id (parks r ! i) = park_id (?ps ! i)
         \<and> (park_id (?ps ! i) = ''YELL'' \<longrightarrow>
              latitude (parks r ! i) = Some 44.428 \<and> longitude (parks r ! i) = Some (- 110.588))
         \<and> (park_id (?ps ! i) \<notin> fst ` set PARK_COORDINATES \<longrightarrow>
              latitude (parks r ! i) = None \<and> longitude (parks r ! i) = None)"
    by blast
  have "(0::nat) < length ?ps" by simp
  with every have "park_id (?ps ! 0) = ''YELL'' \<longrightarrow>
              latitude (parks r ! 0) = Some 44.428 \<and> longitude (parks r ! 0) = Some (- 110.588)"
    by blast
  then have y: "latitude (parks r ! 0) = Some 44.428 \<and> longitude (parks r ! 0) = Some (- 110.588)"
    by simp
  have "(1::nat) < length ?ps" by simp
  with every have "park_id (?ps ! 1) \<notin> fst ` set PARK_COORDINATES \<longrightarrow>
              latitude (parks r ! 1) = None \<and> longitude (parks r ! 1) = None"
    by blast
  with absent have x: "latitude (parks r ! 1) = None \<and> longitude (parks r ! 1) = None"
    by simp
  from ok absent r y x show ?thesis by blast
qed

text \<open>
  C10. Every 2xx answer of the listing endpoint carries one park per upstream park, parks
  without coordinates included, in the upstream order, and \<open>total\<close> is the length of that
  list: the filtered list of parks that have coordinates does not reach the answer.
\<close>

theorem listing_returns_all_parks:
  assumes "response_ok (http_status (parks_GET now upstream))"
  shows "\<exists>st etext ps r. upstream = Resolved st etext (Inr ps)
     \<and> http_body (parks_GET now upstream) = ParksBody r
     \<and> parks r = map add_coordinates ps
     \<and> map park_id (parks r) = map park_id ps
     \<and> total r = length ps
     \<and> total r = length (parks r)"
  using assms
  by (auto simp add: parks_GET_def parks_catch_not_ok response_ok_constants Let_def
      add_coordinates_park_id
      split: fetch_result.splits sum.splits if_splits dest!: NextResponse_json_Inr)

theorem listing_returns_all_parks_witness:
  "response_ok (http_status (parks_GET ''2025-07-01T00:00:00.000Z''
        (Resolved 200 (Inr '''')
          (Inr [\<lparr>park_id = ''YELL'', name = ''Yellowstone'', state = ''WY'', region = ''Intermountain'',
                 park_type = ''National Park'', has_model = True, data_available = None,
                 last_training = None, latitude = None, longitude = None,
                 visitor_stats = None, metadata = None\<rparr>,
                \<lparr>park_id = ''XXXX'', name = ''Unlisted'', state = ''WY'', region = ''Intermountain'',
                 park_type = ''National Park'', has_model = False, data_available = None,
                 last_training = None, latitude = None, longitude = None,
                 visitor_stats = None, metadata = None\<rparr>]))))
   \<and> (\<exists>r. http_body (parks_GET ''2025-07-01T00:00:00.000Z''
        (Resolved 200 (Inr '''')
          (Inr [\<lparr>park_id = ''YELL'', name = ''Yellowstone'', state = ''WY'', region = ''Intermountain'',
                 park_type = ''National Park'', has_model = True, data_available = None,
                 last_training = None, latitude = None, longitude = None,
                 visitor_stats = None, metadata = None\<rparr>,
                \<lparr>park_id = ''XXXX'', name = ''Unlisted'', state = ''WY'', region = ''Intermountain'',
                 park_type = ''National Park'', has_model = False, data_available = None,
                 last_training = None, latitude = None, longitude = None,
                 visitor_stats = None, metadata = None\<rparr>]))) = ParksBody r
      \<and> map park_id (parks r) = [''YELL'', ''XXXX''] \<and> total r = 2)"
proof -
  have ok: "response_ok (http_status (parks_GET ''2025-07-01T00:00:00.000Z''
        (Resolved 200 (Inr '''')
          (Inr [\<lparr>park_id = ''YELL'', name = ''Yellowstone'', state = ''WY'', region = ''Intermountain'',
                 park_type = ''National Park'', has_model = True, data_available = None,
                 last_training = None, latitude = None, longitude = None,
                 visitor_stats = None, metadata = None\<rparr>,
                \<lparr>park_id = ''XXXX'', name = ''Unlisted'', state = ''WY'', region = ''Intermountain'',
                 park_type = ''National Park'', has_model = False, data_available = None,
                 last_training = None, latitude = None, longitude = None,
                 visitor_stats = None, metadata = None\<rparr>]))))"
    by (simp add: parks_GET_parsed response_ok_def)
  from listing_returns_all_parks[OF ok] ok show ?thesis by auto
qed

section \<open>Properties of the health endpoint\<close>

text \<open>
  C3. The health endpoint answers 200 with aggregate status \<open>healthy\<close> exactly when the
  upstream probe resolved with a 2xx status and a parsed body whose status is the string
  \<open>healthy\<close>. In every other case (another status string or none, a status that is not
  2xx, a rejected fetch, a body that cannot be read) it answers 503 with aggregate
  status \<open>degraded\<close>.
\<close>

theorem health_status_iff_upstream_healthy:
  "(if \<exists>st etext h. upstream = Resolved st etext (Inr h) \<and> response_ok st
                     \<and> health_status h = Some ''healthy''
    then http_status (health_GET env startTime endTime now upstream) = 200
       \<and> status (http_body (health_GET env startTime endTime now upstream)) = ''healthy''
    else http_status (health_GET env startTime endTime now upstream) = 503
       \<and> status (http_body (health_GET env startTime endTime now upstream)) = ''degraded'')"
proof (cases upstream)
  case (Rejected e)
  then show ?thesis by (simp add: health_GET_def probe_def)
next
  case (Resolved st etext parsed)
  show ?thesis
  proof (cases parsed)
    case (Inl e)
    with Resolved show ?thesis by (simp add: health_GET_def probe_def)
  next
    case (Inr h)
    with Resolved show ?thesis by (simp add: health_GET_def probe_def Let_def)
  qed
qed

theorem health_status_iff_upstream_healthy_witness:
  "http_status (health_GET \<lparr>ML_SERVICE_URL = None, NEXT_PUBLIC_APP_VERSION = None, NODE_ENV = None\<rparr>
       1000 1042 ''2025-07-01T00:00:00.000Z''
       (Resolved 200 (Inr '''')
          (Inr \<lparr>health_status = Some ''healthy'', models_loaded = Some 5,
                database_connected = Some True\<rparr>))) = 200
   \<and> http_status (health_GET \<lparr>ML_SERVICE_URL = None, NEXT_PUBLIC_APP_VERSION = None, NODE_ENV = None\<rparr>
       1000 1042 ''2025-07-01T00:00:00.000Z''
       (Resolved 200 (Inr '''')
          (Inr \<lparr>health_status = Some ''starting'', models_loaded = Some 5,
                database_connected = Some True\<rparr>))) = 503
   \<and> status (http_body (health_GET \<lparr>ML_SERVICE_URL = None, NEXT_PUBLIC_APP_VERSION = None, NODE_ENV = None\<rparr>
       1000 6000 ''2025-07-01T00:00:00.000Z''
       (Rejected (JsError True False ''TimeoutError'' ''The operation was aborted due to timeout'')))) = ''degraded''"
proof -
  let ?env = "\<lparr>ML_SERVICE_URL = None, NEXT_PUBLIC_APP_VERSION = None, NODE_ENV = None\<rparr>"
  have ok: "response_ok 200" by (simp add: response_ok_def)
  have a: "http_status (health_GET ?env 1000 1042 ''2025-07-01T00:00:00.000Z''
       (Resolved 200 (Inr '''')
          (Inr \<lparr>health_status = Some ''healthy'', models_loaded = Some 5,
                database_connected = Some True\<rparr>))) = 200"
    using ok health_status_iff_upstream_healthy[of
        "Resolved 200 (Inr '''') (Inr \<lparr>health_status = Some ''healthy'', models_loaded = Some 5,
                database_connected = Some True\<rparr>)" ?env 1000 1042 "''2025-07-01T00:00:00.000Z''"]
    by simp
  have b: "http_status (health_GET ?env 1000 1042 ''2025-07-01T00:00:00.000Z''
       (Resolved 200 (Inr '''')
          (Inr \<lparr>health_status = Some ''starting'', models_loaded = Some 5,
                database_connected = Some True\<rparr>))) = 503"
    using health_status_iff_upstream_healthy[of
        "Resolved 200 (Inr '''') (Inr \<lparr>health_status = Some ''starting'', models_loaded = Some 5,
                database_connected = Some True\<rparr>)" ?env 1000 1042 "''2025-07-01T00:00:00.000Z''"]
    by simp
  have c: "status (http_body (health_GET ?env 1000 6000 ''2025-07-01T00:00:00.000Z''
       (Rejected (JsError True False ''TimeoutError'' ''The operation was aborted due to timeout'')))) = ''degraded''"
    using health_status_iff_upstream_healthy[of
        "Rejected (JsError True False ''TimeoutError'' ''The operation was aborted due to timeout'')"
        ?env 1000 6000 "''2025-07-01T00:00:00.000Z''"]
    by simp
  from a b c show ?thesis by blast
qed

section \<open>Properties of the map aggregation\<close>

lemma fold_collect_Some:
  "fold (\<lambda>result m. case result of None \<Rightarrow> m | Some (k, data) \<Rightarrow> m(k \<mapsto> data)) results m0 k = Some d
   \<Longrightarrow> m0 k = Some d \<or> Some (k, d) \<in> set results"
proof (induction results arbitrary: m0)
  case Nil
  then show ?case by simp
next
  case (Cons r rs)
  show ?case
  proof (cases r)
    case None
    with Cons show ?thesis by auto
  next
    case (Some kd)
    obtain k' d' where kd: "kd = (k', d')" by (cases kd)
    from Cons.prems Some kd
    have "fold (\<lambda>result m. case result of None \<Rightarrow> m | Some (k, data) \<Rightarrow> m(k \<mapsto> data)) rs (m0(k' \<mapsto> d')) k = Some d"
      by simp
    from Cons.IH[OF this] show ?thesis
      using Some kd by (auto split: if_splits)
  qed
qed

lemma collect_results_Some:
  "collect_results results k = Some d \<Longrightarrow> Some (k, d) \<in> set results"
  unfolding collect_results_def using fold_collect_Some[of results Map.empty k d] by simp

lemma fold_collect_dom:
  "dom (fold (\<lambda>result m. case result of None \<Rightarrow> m | Some (k, data) \<Rightarrow> m(k \<mapsto> data)) results m0)
   = dom m0 \<union> {k. \<exists>d. Some (k, d) \<in> set results}"
proof (induction results arbitrary: m0)
  case Nil
  then show ?case by simp
next
  case (Cons r rs)
  let ?F = "\<lambda>result m. case result of None \<Rightarrow> m | Some (k, data) \<Rightarrow> m(k \<mapsto> data)"
  show ?case
  proof (cases r)
    case None
    with Cons show ?thesis by auto
  next
    case (Some kd)
    obtain k' d' where kd: "kd = (k', d')" by (cases kd)
    have step: "fold ?F (r # rs) m0 = fold ?F rs (m0(k' \<mapsto> d'))"
      using Some kd by simp
    have "dom (fold ?F rs (m0(k' \<mapsto> d'))) = dom (m0(k' \<mapsto> d')) \<union> {k. \<exists>d. Some (k, d) \<in> set rs}"
      by (rule Cons.IH)
    also have "\<dots> = dom m0 \<union> {k. \<exists>d. Some (k, d) \<in> set (r # rs)}"
      using Some kd by auto
    finally show ?thesis using step by simp
  qed
qed

lemma collect_results_dom:
  "dom (collect_results results) = {k. \<exists>d. Some (k, d) \<in> set results}"
  unfolding collect_results_def by (simp add: fold_collect_dom)

lemma park_prediction_Some:
  "park_prediction fetch_predict sel days p = Some (k, d) \<longleftrightarrow>
   k = park_id p \<and> (\<exists>st data. fetch_predict (map_request days p) = ApiResolved st (Some data)
      \<and> response_ok st \<and> d = filter_predictions sel data)"
  by (auto simp add: park_prediction_def split: api_fetch.splits option.splits)

lemma park_prediction_None:
  "park_prediction fetch_predict sel days p = None \<longleftrightarrow> call_failed (fetch_predict (map_request days p))"
  by (auto simp add: park_prediction_def call_failed_def split: api_fetch.splits option.splits)



text \<open>
  C7. A run over an array of parks ends with the error state cleared, whatever the
  per-park calls did. A park with a model whose call did not fail is a key of the
  resulting set; a key all of whose parks failed is absent from it; every entry of the
  set is the filtered body of a successful call for a park with that identifier. The
  error message is set only on the path where the orchestration itself throws.
\<close>

theorem park_failure_is_absence:
  "error (fst (loadMapPredictions getTime fetch_predict (ParkArray ps) sel s0)) = None
   \<and> (\<forall>p \<in> set ps. has_model p
          \<longrightarrow> \<not> call_failed (fetch_predict (map_request (daysFromBase getTime sel) p))
          \<longrightarrow> park_id p \<in> dom (mapPredictions (fst (loadMapPredictions getTime fetch_predict (ParkArray ps) sel s0))))
   \<and> (\<forall>k. (\<forall>p \<in> set ps. has_model p \<longrightarrow> park_id p = k
                \<longrightarrow> call_failed (fetch_predict (map_request (daysFromBase getTime sel) p)))
          \<longrightarrow> mapPredictions (fst (loadMapPredictions getTime fetch_predict (ParkArray ps) sel s0)) k = None)
   \<and> (\<forall>k d. mapPredictions (fst (loadMapPredictions getTime fetch_predict (ParkArray ps) sel s0)) k = Some d
          \<longrightarrow> (\<exists>p \<in> set ps. has_model p \<and> park_id p = k \<and>
                 (\<exists>st data. fetch_predict (map_request (daysFromBase getTime sel) p) = ApiResolved st (Some data)
                    \<and> response_ok st \<and> d = filter_predictions sel data)))
   \<and> (\<forall>parks_v. error (fst (loadMapPredictions getTime fetch_predict parks_v sel s0)) \<noteq> None
          \<longleftrightarrow> parks_v = NotParkArray)"
proof -
  define run where "run = (\<lambda>parks_v. fst (loadMapPredictions getTime fetch_predict parks_v sel s0))"
  define req where "req = (map_request (daysFromBase getTime sel) :: Park \<Rightarrow> PredictionRequest)"
  let ?results = "map (park_prediction fetch_predict sel (daysFromBase getTime sel)) (filter has_model ps)"
  have mp: "mapPredictions (run (ParkArray ps)) = collect_results ?results"
    by (simp add: run_def loadMapPredictions_def Let_def)
  have e: "error (run (ParkArray ps)) = None"
    by (simp add: run_def loadMapPredictions_def Let_def)
  have a: "\<forall>p \<in> set ps. has_model p \<longrightarrow> \<not> call_failed (fetch_predict (req p))
           \<longrightarrow> park_id p \<in> dom (mapPredictions (run (ParkArray ps)))"
  proof (intro ballI impI)
    fix p assume p: "p \<in> set ps" "has_model p" "\<not> call_failed (fetch_predict (req p))"
    then obtain kd where kd: "park_prediction fetch_predict sel (daysFromBase getTime sel) p = Some kd"
      using park_prediction_None[of fetch_predict sel "daysFromBase getTime sel" p]
      by (auto simp add: req_def)
    then have "fst kd = park_id p"
      using park_prediction_Some[of fetch_predict sel "daysFromBase getTime sel" p "fst kd" "snd kd"] by simp
    with kd have "Some (park_id p, snd kd) \<in> set ?results"
      using p by (cases kd) force
    then show "park_id p \<in> dom (mapPredictions (run (ParkArray ps)))"
      unfolding mp collect_results_dom by blast
  qed
  have c: "\<forall>k d. mapPredictions (run (ParkArray ps)) k = Some d \<longrightarrow>
           (\<exists>p \<in> set ps. has_model p \<and> park_id p = k \<and>
              (\<exists>st data. fetch_predict (req p) = ApiResolved st (Some data) \<and> response_ok st
                 \<and> d = filter_predictions sel data))"
  proof (intro allI impI)
    fix k d assume "mapPredictions (run (ParkArray ps)) k = Some d"
    then have "Some (k, d) \<in> set ?results"
      unfolding mp by (rule collect_results_Some)
    then obtain p where p: "p \<in> set ps" "has_model p"
      and pp: "park_prediction fetch_predict sel (daysFromBase getTime sel) p = Some (k, d)"
      by auto
    from pp show "\<exists>p \<in> set ps. has_model p \<and> park_id p = k \<and>
              (\<exists>st data. fetch_predict (req p) = ApiResolved st (Some data) \<and> response_ok st
                 \<and> d = filter_predictions sel data)"
      unfolding park_prediction_Some req_def using p by blast
  qed
  have b: "\<forall>k. (\<forall>p \<in> set ps. has_model p \<longrightarrow> park_id p = k \<longrightarrow> call_failed (fetch_predict (req p)))
           \<longrightarrow> mapPredictions (run (ParkArray ps)) k = None"
  proof (intro allI impI)
    fix k assume f: "\<forall>p \<in> set ps. has_model p \<longrightarrow> park_id p = k \<longrightarrow> call_failed (fetch_predict (req p))"
    show "mapPredictions (run (ParkArray ps)) k = None"
    proof (rule ccontr)
      assume "mapPredictions (run (ParkArray ps)) k \<noteq> None"
      then obtain d where "mapPredictions (run (ParkArray ps)) k = Some d" by auto
      with c obtain p where "p \<in> set ps" "has_model p" "park_id p = k"
        "\<exists>st data. fetch_predict (req p) = ApiResolved st (Some data) \<and> response_ok st" by blast
      with f show False by (auto simp add: call_failed_def)
    qed
  qed
  have o: "\<forall>parks_v. error (run parks_v) \<noteq> None \<longleftrightarrow> parks_v = NotParkArray"
    by (auto simp add: run_def loadMapPredictions_def Let_def split: parks_value.splits)
  from e a b c o show ?thesis unfolding run_def req_def by blast
qed

theorem park_failure_is_absence_witness:
  "error (fst (loadMapPredictions
      (\<lambda>s. if s = ''2025-07-04'' then Some 1751587200000
            else if s = ''2025-07-05'' then Some 1751673600000 else None)
      (\<lambda>request. if req_park_id request = Some ''YELL'' then ApiRejected
                  else ApiResolved 200 (Some (ErrorBody ''placeholder'')))
      (ParkArray
         [\<lparr>park_id = ''YELL'', name = ''Yellowstone'', state = ''WY'', region = ''Intermountain'',
           park_type = ''National Park'', has_model = True, data_available = None,
           last_training = None, latitude = None, longitude = None,
           visitor_stats = None, metadata = None\<rparr>,
          \<lparr>park_id = ''GRCA'', name = ''Grand Canyon'', state = ''AZ'', region = ''Intermountain'',
           park_type = ''National Park'', has_model = True, data_available = None,
           last_training = None, latitude = None, longitude = None,
           visitor_stats = None, metadata = None\<rparr>])
      ''2025-07-05''
      \<lparr>mapPredictions = Map.empty, error = Some ''Failed to load parks'',
       mapPredictionsLoading = False\<rparr>)) = None
   \<and> mapPredictions (fst (loadMapPredictions
      (\<lambda>s. if s = ''2025-07-04'' then Some 1751587200000
            else if s = ''2025-07-05'' then Some 1751673600000 else None)
      (\<lambda>request. if req_park_id request = Some ''YELL'' then ApiRejected
                  else ApiResolved 200 (Some (ErrorBody ''placeholder'')))
      (ParkArray
         [\<lparr>park_id = ''YELL'', name = ''Yellowstone'', state = ''WY'', region = ''Intermountain'',
           park_type = ''National Park'', has_model = True, data_available = None,
           last_training = None, latitude = None, longitude = None,
           visitor_stats = None, metadata = None\<rparr>,
          \<lparr>park_id = ''GRCA'', name = ''Grand Canyon'', state = ''AZ'', region = ''Intermountain'',
           park_type = ''National Park'', has_model = True, data_available = None,
           last_training = None, latitude = None, longitude = None,
           visitor_stats = None, metadata = None\<rparr>])
      ''2025-07-05''
      \<lparr>mapPredictions = Map.empty, error = Some ''Failed to load parks'',
       mapPredictionsLoading = False\<rparr>)) ''YELL'' = None
   \<and> ''GRCA'' \<in> dom (mapPredictions (fst (loadMapPredictions
      (\<lambda>s. if s = ''2025-07-04'' then Some 1751587200000
            else if s = ''2025-07-05'' then Some 1751673600000 else None)
      (\<lambda>request. if req_park_id request = Some ''YELL'' then ApiRejected
                  else ApiResolved 200 (Some (ErrorBody ''placeholder'')))
      (ParkArray
         [\<lparr>park_id = ''YELL'', name = ''Yellowstone'', state = ''WY'', region = ''Intermountain'',
           park_type = ''National Park'', has_model = True, data_available = None,
           last_training = None, latitude = None, longitude = None,
           visitor_stats = None, metadata = None\<rparr>,
          \<lparr>park_id = ''GRCA'', name = ''Grand Canyon'', state = ''AZ'', region = ''Intermountain'',
           park_type = ''National Park'', has_model = True, data_available = None,
           last_training = None, latitude = None, longitude = None,
           visitor_stats = None, metadata = None\<rparr>])
      ''2025-07-05''
      \<lparr>mapPredictions = Map.empty, error = Some ''Failed to load parks'',
       mapPredictionsLoading = False\<rparr>)))"
proof -
  let ?G = "\<lambda>s. if s = ''2025-07-04'' then Some (1751587200000::int)
            else if s = ''2025-07-05'' then Some 1751673600000 else None"
  let ?F = "\<lambda>request. if req_park_id request = Some ''YELL'' then ApiRejected
                  else ApiResolved 200 (Some (ErrorBody ''placeholder''))"
  let ?yell = "\<lparr>park_id = ''YELL'', name = ''Yellowstone'', state = ''WY'', region = ''Intermountain'',
           park_type = ''National Park'', has_model = True, data_available = None,
           last_training = None, latitude = None, longitude = None,
           visitor_stats = None, metadata = None\<rparr>"
  let ?grca = "\<lparr>park_id = ''GRCA'', name = ''Grand Canyon'', state = ''AZ'', region = ''Intermountain'',
           park_type = ''National Park'', has_model = True, data_available = None,
           last_training = None, latitude = None, longitude = None,
           visitor_stats = None, metadata = None\<rparr>"
  let ?S = "\<lparr>mapPredictions = Map.empty, error = Some ''Failed to load parks'',
       mapPredictionsLoading = False\<rparr>"
  let ?run = "fst (loadMapPredictions ?G ?F (ParkArray [?yell, ?grca]) ''2025-07-05'' ?S)"
  note T = park_failure_is_absence[of ?G ?F "[?yell, ?grca]" "''2025-07-05''" ?S]
  from T have e: "error ?run = None" by blast
  from T have present: "\<forall>p \<in> set [?yell, ?grca]. has_model p
          \<longrightarrow> \<not> call_failed (?F (map_request (daysFromBase ?G ''2025-07-05'') p))
          \<longrightarrow> park_id p \<in> dom (mapPredictions ?run)"
    by blast
  from T have absent: "\<forall>k. (\<forall>p \<in> set [?yell, ?grca]. has_model p \<longrightarrow> park_id p = k
                \<longrightarrow> call_failed (?F (map_request (daysFromBase ?G ''2025-07-05'') p)))
          \<longrightarrow> mapPredictions ?run k = None"
    by blast
  have "\<not> call_failed (?F (map_request (daysFromBase ?G ''2025-07-05'') ?grca))"
    by (simp add: call_failed_def map_request_def response_ok_def)
  with present have g: "''GRCA'' \<in> dom (mapPredictions ?run)"
    by simp
  have "\<forall>p \<in> set [?yell, ?grca]. has_model p \<longrightarrow> park_id p = ''YELL''
                \<longrightarrow> call_failed (?F (map_request (daysFromBase ?G ''2025-07-05'') p))"
    by (simp add: call_failed_def map_request_def)
  with absent have y: "mapPredictions ?run ''YELL'' = None"
    by blast
  from e y g show ?thesis by blast
qed



end
